theory Spec2Isabelle
  imports Main "HOL-Library.Word" "HOL-Library.Char_ord" "HOL-Library.List_Lexorder"
begin

section \<open>Points (ouroboros/chainsync/types.go)\<close>

text \<open>
  Go strings and byte slices are lists of 8-bit characters; \<open>uint64\<close> is \<open>64 word\<close>.
  A pointer field is an \<open>option\<close>: \<open>None\<close> is \<open>nil\<close>.
\<close>

type_synonym bytes = string
type_synonym uint64 = "64 word"

text \<open>\<open>type PointType int\<close> with the constants \<open>PointTypeString = 1\<close>, \<open>PointTypeStruct = 2\<close>;
  the zero value 0 is what an unset Point carries.\<close>

type_synonym PointType = int

definition PointTypeString :: PointType where
  "PointTypeString = 1"

definition PointTypeStruct :: PointType where
  "PointTypeStruct = 2"

text \<open>The current generation's \<open>PointStruct\<close>: \<open>Height *uint64\<close>, \<open>ID string\<close>, \<open>Slot uint64\<close>.\<close>

record PointStruct =
  Height :: "uint64 option"
  ID :: string
  Slot :: uint64

record Point =
  pointType :: PointType
  pointString :: string
  pointStruct :: "PointStruct option"

text \<open>The zero value \<open>Point{}\<close> of a freshly declared variable.\<close>

definition Point_zero :: Point where
  "Point_zero = \<lparr>pointType = 0, pointString = [], pointStruct = None\<rparr>"

text \<open>\<open>func (p PointString) Point() Point\<close> and \<open>func (p PointStruct) Point() Point\<close>.\<close>

definition PointString_Point :: "string \<Rightarrow> Point" where
  "PointString_Point p = \<lparr>pointType = PointTypeString, pointString = p, pointStruct = None\<rparr>"

definition PointStruct_Point :: "PointStruct \<Rightarrow> Point" where
  "PointStruct_Point p = \<lparr>pointType = PointTypeStruct, pointString = [], pointStruct = Some p\<rparr>"

definition Origin :: Point where
  "Origin = PointString_Point ''origin''"

subsection \<open>Ordering of points\<close>

text \<open>
  The body of \<open>Points.Less\<close> on the two selected points. Reading \<open>pi.pointStruct.Slot\<close>
  through a nil pointer panics: that is the result \<open>None\<close>. Go compares strings
  bytewise, which is the lexicographic order on character lists.
\<close>

definition Less_points :: "Point \<Rightarrow> Point \<Rightarrow> bool option" where
  "Less_points pi pj =
     (if pointType pi = PointTypeStruct \<and> pointType pj = PointTypeStruct then
        (case (pointStruct pi, pointStruct pj) of
           (Some si, Some sj) \<Rightarrow> Some (Slot sj < Slot si)
         | _ \<Rightarrow> None)
      else if pointType pi = PointTypeStruct then Some True
      else if pointType pj = PointTypeStruct then Some False
      else Some (pointString pj < pointString pi))"

text \<open>\<open>func (pp Points) Less(i, j int) bool\<close>; an index out of range panics (\<open>None\<close>).\<close>

definition Less :: "Point list \<Rightarrow> int \<Rightarrow> int \<Rightarrow> bool option" where
  "Less pp i j =
     (if 0 \<le> i \<and> i < int (length pp) \<and> 0 \<le> j \<and> j < int (length pp)
      then Less_points (pp ! nat i) (pp ! nat j)
      else None)"

text \<open>
  A struct-typed point built by the package always carries its struct; only such points
  can be compared without a panic.
\<close>

definition well_formed :: "Point \<Rightarrow> bool" where
  "well_formed p = (pointType p \<noteq> PointTypeStruct \<or> pointStruct p \<noteq> None)"

text \<open>
  What \<open>Less\<close> compares: the slot of a struct point, the string of any other point.
  Two points with the same key are tied: neither is less than the other.
\<close>

definition sort_key :: "Point \<Rightarrow> uint64 + string" where
  "sort_key p =
     (if pointType p = PointTypeStruct
      then Inl (case pointStruct p of Some s \<Rightarrow> Slot s | None \<Rightarrow> 0)
      else Inr (pointString p))"

text \<open>A slice to run the ordering on: slots 3 and 9, and the markers \<open>"a"\<close> and \<open>"b"\<close>.\<close>

definition sample_points :: "Point list" where
  "sample_points =
     [PointStruct_Point \<lparr>Height = None, ID = ''aa'', Slot = 3\<rparr>,
      PointStruct_Point \<lparr>Height = None, ID = ''bb'', Slot = 9\<rparr>,
      PointString_Point ''a'',
      PointString_Point ''b'']"

section \<open>Errors and outcomes\<close>

text \<open>
  An error is either one reported by a library (\<open>encoding/json\<close>, the attribute
  decoder), carried as its message, or one built by \<open>fmt.Errorf\<close>: the format, the
  values printed with \<open>%v\<close>, and the error wrapped with \<open>%w\<close> (\<open>None\<close> when the
  wrapped value is nil).
\<close>

datatype error =
    Library string
  | Errorf string "string list" "error option"

text \<open>
  A method with a pointer receiver either panics or returns: the receiver as the call
  left it, and the returned error (\<open>None\<close> is nil).
\<close>

datatype 'a outcome = Panic | Return 'a "error option"

section \<open>Decoding a point from JSON\<close>

text \<open>
  \<open>func (p *Point) UnmarshalJSON(data []byte) error\<close>. The two calls of
  \<open>json.Unmarshal\<close>, into a fresh string and into a fresh \<open>PointStruct\<close>, are
  parameters: a function from the bytes to the library's error or the decoded value.
  \<open>data[0]\<close> on an empty slice is an index out of range, a panic. The receiver is
  assigned on success only. The legacy generation of the file has the same method, word
  for word, over its own \<open>PointStruct\<close>.
\<close>

definition Point_UnmarshalJSON ::
  "(bytes \<Rightarrow> error + string) \<Rightarrow> (bytes \<Rightarrow> error + PointStruct) \<Rightarrow> Point \<Rightarrow> bytes
     \<Rightarrow> Point outcome" where
  "Point_UnmarshalJSON unmarshal_string unmarshal_struct p data =
     (case data of
        [] \<Rightarrow> Panic
      | c # _ \<Rightarrow>
          if c = CHR 0x22 then
            (case unmarshal_string data of
               Inl err \<Rightarrow>
                 Return p (Some (Errorf ''failed to unmarshal Point, %v: %w'' [data] (Some err)))
             | Inr s \<Rightarrow>
                 Return \<lparr>pointType = PointTypeString, pointString = s, pointStruct = None\<rparr> None)
          else
            (case unmarshal_struct data of
               Inl err \<Rightarrow>
                 Return p (Some (Errorf ''failed to unmarshal Point, %v: %w'' [data] (Some err)))
             | Inr ps \<Rightarrow>
                 Return \<lparr>pointType = PointTypeStruct, pointString = [], pointStruct = Some ps\<rparr> None))"

text \<open>The library's answers in the example below: it decodes \<open>"origin"\<close> as a string, and
  nothing as a struct.\<close>

definition only_origin :: "bytes \<Rightarrow> error + string" where
  "only_origin data =
     (if data = [CHR 0x22, CHR ''o'', CHR ''r'', CHR ''i'', CHR ''g'', CHR ''i'', CHR ''n'', CHR 0x22]
      then Inr ''origin'' else Inl (Library ''invalid character''))"

definition no_struct :: "bytes \<Rightarrow> error + PointStruct" where
  "no_struct data = Inl (Library ''cannot unmarshal into Go value of type chainsync.PointStruct'')"

section \<open>Response envelopes\<close>

text \<open>
  \<open>json.RawMessage\<close> is a byte slice that may be nil. The block payload is opaque here:
  nothing below looks inside it.
\<close>

type_synonym RawMessage = "bytes option"

typedecl Block

record ResultError =
  Code :: "32 word"
  Message :: string
  Data :: RawMessage
  ID :: RawMessage

record ResultFindIntersectionPraos =
  Intersection :: "Point option"
  Tip :: "PointStruct option"
  Error :: "ResultError option"
  ID :: RawMessage

record ResultNextBlockPraos =
  Direction :: string
  Tip :: "PointStruct option"
  Block :: "Block option"
  Point :: "Point option"

text \<open>The \<open>interface{}\<close> field \<open>Result\<close> holds one of the two result shapes, or nil.\<close>

datatype result_value =
    FindIntersectionResult ResultFindIntersectionPraos
  | NextBlockResult ResultNextBlockPraos

record ResponsePraos =
  JsonRpc :: string
  Method :: string
  Result :: "result_value option"
  Error :: "ResultError option"
  ID :: RawMessage

text \<open>The anonymous struct \<open>m\<close> that \<open>ResponsePraos.UnmarshalJSON\<close> decodes first.\<close>

record Envelope =
  JsonRpc :: string
  Method :: string
  ID :: RawMessage
  Result :: RawMessage
  Error :: RawMessage

definition FindIntersectionMethod :: string where
  "FindIntersectionMethod = ''findIntersection''"

definition NextBlockMethod :: string where
  "NextBlockMethod = ''nextBlock''"

definition FindIntersectMethod :: string where
  "FindIntersectMethod = ''FindIntersect''"

definition RequestNextMethod :: string where
  "RequestNextMethod = ''RequestNext''"

text \<open>The bytes of a raw message as \<open>json.Unmarshal\<close> receives them: none when it is nil.\<close>

definition raw_bytes :: "RawMessage \<Rightarrow> bytes" where
  "raw_bytes m = (case m of None \<Rightarrow> [] | Some b \<Rightarrow> b)"

text \<open>The format \<open>unknown method: '%v'\<close>, with its two single quotes.\<close>

definition unknown_method_format :: string where
  "unknown_method_format = ''unknown method: '' @ [CHR 0x27] @ ''%v'' @ [CHR 0x27]"

text \<open>
  \<open>func (r *ResponsePraos) UnmarshalJSON(b []byte) error\<close>. The four calls of
  \<open>json.Unmarshal\<close> (into \<open>m\<close>, into a \<open>ResultError\<close>, and into the two result
  shapes) are parameters. The receiver is written as the code goes: \<open>JsonRpc\<close> and
  \<open>ID\<close> once \<open>m\<close> is decoded, \<open>Method\<close> before the result is decoded, and the
  unknown-method message prints \<open>r.Method\<close>, the receiver's own field.
\<close>

definition ResponsePraos_UnmarshalJSON ::
  "(bytes \<Rightarrow> error + Envelope) \<Rightarrow> (bytes \<Rightarrow> error + ResultError)
     \<Rightarrow> (bytes \<Rightarrow> error + ResultFindIntersectionPraos)
     \<Rightarrow> (bytes \<Rightarrow> error + ResultNextBlockPraos)
     \<Rightarrow> ResponsePraos \<Rightarrow> bytes \<Rightarrow> ResponsePraos outcome" where
  "ResponsePraos_UnmarshalJSON unmarshal_m unmarshal_error unmarshal_find unmarshal_next r b =
     (case unmarshal_m b of
        Inl err \<Rightarrow> Return r (Some err)
      | Inr m \<Rightarrow>
          (let r1 = r\<lparr>ResponsePraos.JsonRpc := Envelope.JsonRpc m,
                        ResponsePraos.ID := Envelope.ID m\<rparr> in
           case Envelope.Error m of
             Some raw \<Rightarrow>
               (case unmarshal_error raw of
                  Inl err \<Rightarrow> Return r1 (Some err)
                | Inr resultError \<Rightarrow> Return (r1\<lparr>ResponsePraos.Error := Some resultError\<rparr>) None)
           | None \<Rightarrow>
               if Envelope.Method m = FindIntersectionMethod \<or> Envelope.Method m = FindIntersectMethod
               then
                 (case unmarshal_find (raw_bytes (Envelope.Result m)) of
                    Inl err \<Rightarrow>
                      Return (r1\<lparr>ResponsePraos.Method := FindIntersectionMethod\<rparr>) (Some err)
                  | Inr findIntersection \<Rightarrow>
                      Return (r1\<lparr>ResponsePraos.Method := FindIntersectionMethod,
                                  ResponsePraos.Result := Some (FindIntersectionResult findIntersection)\<rparr>)
                        None)
               else if Envelope.Method m = NextBlockMethod \<or> Envelope.Method m = RequestNextMethod
               then
                 (case unmarshal_next (raw_bytes (Envelope.Result m)) of
                    Inl err \<Rightarrow>
                      Return (r1\<lparr>ResponsePraos.Method := NextBlockMethod\<rparr>) (Some err)
                  | Inr nextBlock \<Rightarrow>
                      Return (r1\<lparr>ResponsePraos.Method := NextBlockMethod,
                                  ResponsePraos.Result := Some (NextBlockResult nextBlock)\<rparr>)
                        None)
               else Return r1 (Some (Errorf unknown_method_format [ResponsePraos.Method r1] None))))"

text \<open>
  The library's answers on the payload \<open>{"jsonrpc":"2.0","method":"foo"}\<close>: the
  envelope it decodes to, and decoders that are never reached.
\<close>

definition foo_payload :: bytes where
  "foo_payload = ''{\"jsonrpc\":\"2.0\",\"method\":\"foo\"}''"

definition foo_envelope :: "bytes \<Rightarrow> error + Envelope" where
  "foo_envelope b =
     (if b = foo_payload
      then Inr \<lparr>Envelope.JsonRpc = ''2.0'', Method = ''foo'', ID = None, Result = None, Error = None\<rparr>
      else Inl (Library ''unexpected end of JSON input''))"

definition unreached :: "bytes \<Rightarrow> error + 'a" where
  "unreached b = Inl (Library ''unexpected end of JSON input'')"

definition ResponsePraos_zero :: ResponsePraos where
  "ResponsePraos_zero =
     \<lparr>ResponsePraos.JsonRpc = [], Method = [], Result = None, Error = None, ID = None\<rparr>"

section \<open>The compatibility shim (ouroboros/chainsync/compatibility/types.go)\<close>

text \<open>
  The legacy result types live in the package \<open>v5\<close>; the shim reads only whether their
  pointer fields are nil, so what they point to is a type parameter.
\<close>

record ('f, 'n) ResultFindIntersectionV5 =
  IntersectionFound :: "'f option"
  IntersectionNotFound :: "'n option"

record ('b, 'f) ResultNextBlockV5 =
  RollBackward :: "'b option"
  RollForward :: "'f option"

text \<open>
  A library decoder (\<open>json.Unmarshal\<close>, \<open>dynamodbattribute.Unmarshal\<close>) fills a fresh
  variable and returns an error or nil: the model of a call is a function from the
  payload to the variable as the call left it and the error. \<open>ConvertToV6\<close> is a
  parameter as well.
\<close>

definition CompatibleResultFindIntersection_UnmarshalJSON ::
  "(bytes \<Rightarrow> ResultFindIntersectionPraos \<times> error option)
     \<Rightarrow> (bytes \<Rightarrow> ('f, 'n) ResultFindIntersectionV5 \<times> error option)
     \<Rightarrow> (('f, 'n) ResultFindIntersectionV5 \<Rightarrow> ResultFindIntersectionPraos)
     \<Rightarrow> ResultFindIntersectionPraos \<Rightarrow> bytes \<Rightarrow> ResultFindIntersectionPraos outcome" where
  "CompatibleResultFindIntersection_UnmarshalJSON unmarshal6 unmarshal5 ConvertToV6 c data =
     (case unmarshal6 data of
        (r, err) \<Rightarrow>
          if err = None \<and> (Intersection r \<noteq> None \<or> ResultFindIntersectionPraos.Error r \<noteq> None)
          then Return r None
          else
            (case unmarshal5 data of
               (r5, err5) \<Rightarrow>
                 if err5 = None \<and> (IntersectionFound r5 \<noteq> None \<or> IntersectionNotFound r5 \<noteq> None)
                 then Return (ConvertToV6 r5) None
                 else Return c
                   (Some (Errorf ''unable to parse as either v5 or v6 FindIntersection: %w'' [] err5))))"


definition CompatibleResultNextBlock_UnmarshalJSON ::
  "(bytes \<Rightarrow> ResultNextBlockPraos \<times> error option)
     \<Rightarrow> (bytes \<Rightarrow> ('b, 'f) ResultNextBlockV5 \<times> error option)
     \<Rightarrow> (('b, 'f) ResultNextBlockV5 \<Rightarrow> ResultNextBlockPraos)
     \<Rightarrow> ResultNextBlockPraos \<Rightarrow> bytes \<Rightarrow> ResultNextBlockPraos outcome" where
  "CompatibleResultNextBlock_UnmarshalJSON unmarshal6 unmarshal5 ConvertToV6 c data =
     (case unmarshal6 data of
        (r, err) \<Rightarrow>
          if err = None \<and> Direction r \<noteq> []
          then Return r None
          else
            (case unmarshal5 data of
               (v, err5) \<Rightarrow>
                 if err5 = None \<and> (RollBackward v \<noteq> None \<or> RollForward v \<noteq> None)
                 then Return (ConvertToV6 v) None
                 else Return c
                   (Some (Errorf ''unable to parse as either v5 of v6 NextBlock: %w'' [] err5))))"


text \<open>An error carries another when it is that error or wraps, at any depth, one that is.\<close>

fun carries :: "error \<Rightarrow> error \<Rightarrow> bool" where
  "carries (Library m) e = (e = Library m)"
| "carries (Errorf f args None) e = (e = Errorf f args None)"
| "carries (Errorf f args (Some w)) e = (e = Errorf f args (Some w) \<or> carries w e)"

text \<open>
  Payloads and the library's answers on them, for the theorems below. On
  \<open>{"error":{"code":1000,"message":"x"}}\<close> the current schema decodes with its error field
  set and no intersection; on \<open>42\<close> both schemas fail, each with its own type error; the
  legacy decoder finds nothing on the first payload.
\<close>

definition ResultFindIntersectionPraos_zero :: ResultFindIntersectionPraos where
  "ResultFindIntersectionPraos_zero =
     \<lparr>Intersection = None, Tip = None, Error = None, ID = None\<rparr>"

definition error_payload :: bytes where
  "error_payload = ''{\"error\":{\"code\":1000,\"message\":\"x\"}}''"

definition error_result :: ResultFindIntersectionPraos where
  "error_result =
     \<lparr>Intersection = None, Tip = None,
      Error = Some \<lparr>Code = 1000, Message = ''x'', Data = None, ID = None\<rparr>, ID = None\<rparr>"

definition current_error :: error where
  "current_error =
     Library ''json: cannot unmarshal number into Go value of type chainsync.ResultFindIntersectionPraos''"

definition legacy_error :: error where
  "legacy_error =
     Library ''json: cannot unmarshal number into Go value of type v5.ResultFindIntersectionV5''"

definition sample_unmarshal6 :: "bytes \<Rightarrow> ResultFindIntersectionPraos \<times> error option" where
  "sample_unmarshal6 data =
     (if data = error_payload then (error_result, None)
      else (ResultFindIntersectionPraos_zero, Some current_error))"

definition sample_unmarshal5 :: "bytes \<Rightarrow> (unit, unit) ResultFindIntersectionV5 \<times> error option" where
  "sample_unmarshal5 data =
     (if data = error_payload then (\<lparr>IntersectionFound = None, IntersectionNotFound = None\<rparr>, None)
      else (\<lparr>IntersectionFound = None, IntersectionNotFound = None\<rparr>, Some legacy_error))"

definition sample_convert :: "(unit, unit) ResultFindIntersectionV5 \<Rightarrow> ResultFindIntersectionPraos" where
  "sample_convert r5 = ResultFindIntersectionPraos_zero"

text \<open>The next-block decoders' answers on \<open>42\<close>: both fail.\<close>

definition ResultNextBlockPraos_zero :: ResultNextBlockPraos where
  "ResultNextBlockPraos_zero = \<lparr>Direction = [], Tip = None, Block = None, Point = None\<rparr>"

definition sample_next6 :: "bytes \<Rightarrow> ResultNextBlockPraos \<times> error option" where
  "sample_next6 data = (ResultNextBlockPraos_zero, Some current_error)"

definition sample_next5 :: "bytes \<Rightarrow> (unit, unit) ResultNextBlockV5 \<times> error option" where
  "sample_next5 data = (\<lparr>RollBackward = None, RollForward = None\<rparr>, Some legacy_error)"

definition sample_next_convert :: "(unit, unit) ResultNextBlockV5 \<Rightarrow> ResultNextBlockPraos" where
  "sample_next_convert v = ResultNextBlockPraos_zero"




section \<open>Execution units\<close>



text \<open>The value types of \<open>jsonparser\<close>.\<close>

datatype ValueType = NotExist | String | Number | Object | Array | Boolean | Null | Unknown






section \<open>The three encodings of a point\<close>

text \<open>
  A valid point has exactly one variant: a string point carries no struct, a struct point
  carries its struct and an empty string.
\<close>

definition valid_point :: "Point \<Rightarrow> bool" where
  "valid_point p =
     ((pointType p = PointTypeString \<and> pointStruct p = None)
      \<or> (pointType p = PointTypeStruct \<and> pointString p = [] \<and> pointStruct p \<noteq> None))"

text \<open>
  \<open>func (p Point) MarshalJSON() ([]byte, error)\<close>; \<open>json.Marshal\<close> of the string and
  of the struct pointer are parameters.
\<close>

definition Point_MarshalJSON ::
  "(string \<Rightarrow> error + bytes) \<Rightarrow> (PointStruct option \<Rightarrow> error + bytes) \<Rightarrow> Point \<Rightarrow> error + bytes" where
  "Point_MarshalJSON marshal_string marshal_struct p =
     (if pointType p = PointTypeString then marshal_string (pointString p)
      else if pointType p = PointTypeStruct then marshal_struct (pointStruct p)
      else Inl (Errorf ''unable to unmarshal Point: unknown type'' [] None))"

text \<open>The wrapper \<open>pointCBOR\<close>, the value that is written to and read from CBOR.\<close>

record pointCBOR =
  String :: string
  Struct :: "PointStruct option"

definition bNil :: bytes where
  "bNil = ''nil''"

definition Point_MarshalCBOR :: "(pointCBOR \<Rightarrow> error + bytes) \<Rightarrow> Point \<Rightarrow> error + bytes" where
  "Point_MarshalCBOR cbor_Marshal p =
     (if pointType p = PointTypeString \<or> pointType p = PointTypeStruct
      then cbor_Marshal \<lparr>pointCBOR.String = pointString p, Struct = pointStruct p\<rparr>
      else Inl (Errorf ''unable to unmarshal Point: unknown type'' [] None))"

definition Point_UnmarshalCBOR :: "(bytes \<Rightarrow> error + pointCBOR) \<Rightarrow> Point \<Rightarrow> bytes \<Rightarrow> Point outcome" where
  "Point_UnmarshalCBOR cbor_Unmarshal p data =
     (if length data = 0 \<or> data = bNil then Return p None
      else
        (case cbor_Unmarshal data of
           Inl err \<Rightarrow> Return p (Some (Errorf ''failed to unmarshal Point: %w'' [] (Some err)))
         | Inr v \<Rightarrow>
             Return \<lparr>pointType = (if Struct v \<noteq> None then PointTypeStruct else PointTypeString),
                     pointString = pointCBOR.String v, pointStruct = Struct v\<rparr> None))"

text \<open>
  Of a \<open>dynamodb.AttributeValue\<close> the point code writes and reads the string \<open>S\<close> and
  the map \<open>M\<close>, whose values belong to the library. \<open>MarshalMap\<close> and \<open>UnmarshalMap\<close>
  are parameters. The marshaller writes into the item it is given.
\<close>

record 'v AttributeValue =
  S :: "string option"
  M :: "(string \<times> 'v) list option"

definition AttributeValue_zero :: "'v AttributeValue" where
  "AttributeValue_zero = \<lparr>S = None, M = None\<rparr>"

definition map_len :: "(string \<times> 'v) list option \<Rightarrow> nat" where
  "map_len m = (case m of None \<Rightarrow> 0 | Some kvs \<Rightarrow> length kvs)"

definition Point_MarshalDynamoDBAttributeValue ::
  "(PointStruct option \<Rightarrow> error + (string \<times> 'v) list) \<Rightarrow> Point \<Rightarrow> 'v AttributeValue
     \<Rightarrow> 'v AttributeValue outcome" where
  "Point_MarshalDynamoDBAttributeValue MarshalMap p item =
     (if pointType p = PointTypeString then Return (item\<lparr>S := Some (pointString p)\<rparr>) None
      else if pointType p = PointTypeStruct then
        (case MarshalMap (pointStruct p) of
           Inl err \<Rightarrow> Return item (Some (Errorf ''failed to marshal point struct: %w'' [] (Some err)))
         | Inr m \<Rightarrow> Return (item\<lparr>M := Some m\<rparr>) None)
      else Return item (Some (Errorf ''unable to unmarshal Point: unknown type'' [] None)))"

definition Point_UnmarshalDynamoDBAttributeValue ::
  "((string \<times> 'v) list \<Rightarrow> error + PointStruct) \<Rightarrow> Point \<Rightarrow> 'v AttributeValue option
     \<Rightarrow> Point outcome" where
  "Point_UnmarshalDynamoDBAttributeValue UnmarshalMap p item =
     (case item of
        None \<Rightarrow> Return p None
      | Some av \<Rightarrow>
          (case S av of
             Some s \<Rightarrow> Return \<lparr>pointType = PointTypeString, pointString = s, pointStruct = None\<rparr> None
           | None \<Rightarrow>
               if 0 < map_len (M av) then
                 (case UnmarshalMap (case M av of None \<Rightarrow> [] | Some kvs \<Rightarrow> kvs) of
                    Inl err \<Rightarrow>
                      Return p (Some (Errorf ''failed to unmarshal point struct: %w'' [] (Some err)))
                  | Inr point \<Rightarrow>
                      Return \<lparr>pointType = PointTypeStruct, pointString = [], pointStruct = Some point\<rparr>
                        None)
               else Return p None))"

text \<open>
  The point with slot 0, no id and no height, and the library's answer on its struct: every
  field is omitted, the map is empty.
\<close>

definition empty_struct_point :: Point where
  "empty_struct_point = PointStruct_Point \<lparr>Height = None, ID = [], Slot = 0\<rparr>"

definition sample_MarshalMap :: "PointStruct option \<Rightarrow> error + (string \<times> string) list" where
  "sample_MarshalMap ps =
     (case ps of
        None \<Rightarrow> Inr []
      | Some s \<Rightarrow>
          Inr ((case Height s of None \<Rightarrow> [] | Some h \<Rightarrow> [(''height'', ''N'')])
               @ (if PointStruct.ID s = [] then [] else [(''id'', ''S'')])
               @ (if Slot s = 0 then [] else [(''slot'', ''N'')])))"

definition sample_UnmarshalMap :: "(string \<times> string) list \<Rightarrow> error + PointStruct" where
  "sample_UnmarshalMap m =
     (if m = [(''id'', ''S''), (''slot'', ''N'')]
      then Inr \<lparr>Height = None, ID = ''hash'', Slot = 456\<rparr>
      else Inl (Library ''cannot unmarshal''))"

text \<open>The point of the tests, slot 456 with id \<open>hash\<close>, and the library's answers on it.\<close>

definition hash_struct :: PointStruct where
  "hash_struct = \<lparr>Height = None, ID = ''hash'', Slot = 456\<rparr>"

definition hash_json :: bytes where
  "hash_json = ''{\"id\":\"hash\",\"slot\":456}''"

definition hash_cbor :: bytes where
  "hash_cbor = [CHR 0xA1, CHR 0x02, CHR 0xA2, CHR 0x62] @ ''id'' @ [CHR 0x64] @ ''hash''
                 @ [CHR 0x64] @ ''slot'' @ [CHR 0x19, CHR 0x01, CHR 0xC8]"

definition sample_marshal_string :: "string \<Rightarrow> error + bytes" where
  "sample_marshal_string s = Inr ([CHR 0x22] @ s @ [CHR 0x22])"

definition sample_marshal_struct :: "PointStruct option \<Rightarrow> error + bytes" where
  "sample_marshal_struct ps = (if ps = Some hash_struct then Inr hash_json else Inr ''null'')"

definition sample_unmarshal_struct :: "bytes \<Rightarrow> error + PointStruct" where
  "sample_unmarshal_struct data =
     (if data = hash_json then Inr hash_struct
      else Inl (Library ''cannot unmarshal into Go value of type chainsync.PointStruct''))"

definition sample_cbor_Marshal :: "pointCBOR \<Rightarrow> error + bytes" where
  "sample_cbor_Marshal v =
     (if v = \<lparr>pointCBOR.String = [], Struct = Some hash_struct\<rparr> then Inr hash_cbor
      else Inl (Library ''unsupported''))"

definition sample_cbor_Unmarshal :: "bytes \<Rightarrow> error + pointCBOR" where
  "sample_cbor_Unmarshal data =
     (if data = hash_cbor then Inr \<lparr>pointCBOR.String = [], Struct = Some hash_struct\<rparr>
      else Inl (Library ''unexpected EOF''))"

section \<open>JSON text as \<open>encoding/json\<close> writes it\<close>

definition byte :: "char \<Rightarrow> nat" where
  "byte c = of_char c"

definition hexdigit :: "nat \<Rightarrow> char" where
  "hexdigit n = ''0123456789abcdef'' ! n"

text \<open>
  The length of the well-formed UTF-8 sequence at the head of a string, 0 when the head
  byte starts none (\<open>utf8.DecodeRuneInString\<close> then reports an error of size 1).
\<close>

definition cont :: "char \<Rightarrow> bool" where
  "cont c = (0x80 \<le> byte c \<and> byte c \<le> 0xBF)"

fun utf8_size :: "bytes \<Rightarrow> nat" where
  "utf8_size [] = 0"
| "utf8_size (b0 # rest) =
     (let x = byte b0 in
      if x < 0x80 then 1
      else if 0xC2 \<le> x \<and> x \<le> 0xDF then
        (case rest of b1 # _ \<Rightarrow> if cont b1 then 2 else 0 | _ \<Rightarrow> 0)
      else if 0xE0 \<le> x \<and> x \<le> 0xEF then
        (case rest of b1 # b2 # _ \<Rightarrow>
           if (if x = 0xE0 then 0xA0 else 0x80) \<le> byte b1
              \<and> byte b1 \<le> (if x = 0xED then 0x9F else 0xBF) \<and> cont b2
           then 3 else 0
         | _ \<Rightarrow> 0)
      else if 0xF0 \<le> x \<and> x \<le> 0xF4 then
        (case rest of b1 # b2 # b3 # _ \<Rightarrow>
           if (if x = 0xF0 then 0x90 else 0x80) \<le> byte b1
              \<and> byte b1 \<le> (if x = 0xF4 then 0x8F else 0xBF) \<and> cont b2 \<and> cont b3
           then 4 else 0
         | _ \<Rightarrow> 0)
      else 0)"

text \<open>
  The bytes written as they are: printable ASCII but the double quote, the backslash and,
  with HTML escaping on as \<open>json.Marshal\<close> has it, \<open>&\<close>, \<open><\<close> and \<open>>\<close>.
\<close>

definition htmlSafe :: "char \<Rightarrow> bool" where
  "htmlSafe c = (0x20 \<le> byte c \<and> byte c < 0x80 \<and> c \<noteq> CHR 0x22 \<and> c \<noteq> CHR 0x5C
                 \<and> c \<noteq> CHR ''&'' \<and> c \<noteq> CHR ''<'' \<and> c \<noteq> CHR ''>'')"

text \<open>
  The escapes of the other ASCII bytes, as Go 1.22 and later write them (earlier releases
  write the backspace and the form feed as \<open>u0008\<close> and \<open>u000c\<close> escapes).
\<close>

definition escape_byte :: "char \<Rightarrow> bytes" where
  "escape_byte c =
     (if c = CHR 0x5C \<or> c = CHR 0x22 then [CHR 0x5C, c]
      else if c = CHR 0x08 then [CHR 0x5C, CHR ''b'']
      else if c = CHR 0x0C then [CHR 0x5C, CHR ''f'']
      else if c = CHR 0x0A then [CHR 0x5C, CHR ''n'']
      else if c = CHR 0x0D then [CHR 0x5C, CHR ''r'']
      else if c = CHR 0x09 then [CHR 0x5C, CHR ''t'']
      else [CHR 0x5C, CHR ''u'', CHR ''0'', CHR ''0'', hexdigit (byte c div 16), hexdigit (byte c mod 16)])"

text \<open>
  The body of a JSON string: ASCII is copied or escaped; a byte that starts no UTF-8
  sequence is written as the escape of U+FFFD; the line and paragraph separators U+2028 and U+2029
  are escaped; any other sequence is copied.
\<close>

function quote_body :: "bytes \<Rightarrow> bytes" where
  "quote_body [] = []"
| "quote_body (c # cs) =
     (if byte c < 0x80 then (if htmlSafe c then [c] else escape_byte c) @ quote_body cs
      else if utf8_size (c # cs) = 0 then
        [CHR 0x5C, CHR ''u'', CHR ''f'', CHR ''f'', CHR ''f'', CHR ''d''] @ quote_body cs
      else if take 3 (c # cs) = [CHR 0xE2, CHR 0x80, CHR 0xA8] then
        [CHR 0x5C, CHR ''u'', CHR ''2'', CHR ''0'', CHR ''2'', CHR ''8''] @ quote_body (drop 3 (c # cs))
      else if take 3 (c # cs) = [CHR 0xE2, CHR 0x80, CHR 0xA9] then
        [CHR 0x5C, CHR ''u'', CHR ''2'', CHR ''0'', CHR ''2'', CHR ''9''] @ quote_body (drop 3 (c # cs))
      else take (utf8_size (c # cs)) (c # cs) @ quote_body (drop (utf8_size (c # cs)) (c # cs)))"
  by pat_completeness auto
termination
  by (relation "measure length") (auto simp: Let_def)

definition quote :: "bytes \<Rightarrow> bytes" where
  "quote s = CHR 0x22 # quote_body s @ [CHR 0x22]"

text \<open>An unsigned integer in decimal.\<close>

definition digit :: "nat \<Rightarrow> char" where
  "digit n = ''0123456789'' ! n"

function digits :: "nat \<Rightarrow> bytes" where
  "digits n = (if n < 10 then [digit n] else digits (n div 10) @ [digit (n mod 10)])"
  by pat_completeness auto
termination
proof (relation "measure id")
  show "wf (measure id)" by simp
next
  fix n :: nat
  assume "\<not> n < 10"
  then have "n div 10 < n" by (intro div_less_dividend) simp_all
  then show "(n div 10, n) \<in> measure id" by simp
qed

declare digits.simps [simp del]

definition join :: "bytes \<Rightarrow> bytes list \<Rightarrow> bytes" where
  "join sep xs = (case xs of [] \<Rightarrow> [] | x # rest \<Rightarrow> x @ concat (map (\<lambda>y. sep @ y) rest))"

text \<open>
  \<open>json.Marshal\<close> of a string, and of a \<open>*PointStruct\<close> with its tags: \<open>height\<close>,
  \<open>id\<close> and \<open>slot\<close> in this order, each left out when empty (a nil height, an empty
  id, slot 0); a nil pointer is \<open>null\<close>.
\<close>

definition json_Marshal_string :: "string \<Rightarrow> error + bytes" where
  "json_Marshal_string s = Inr (quote s)"

definition json_Marshal_PointStruct :: "PointStruct option \<Rightarrow> error + bytes" where
  "json_Marshal_PointStruct p =
     (case p of
        None \<Rightarrow> Inr ''null''
      | Some s \<Rightarrow>
          Inr (''{''
               @ join '',''
                   ((case Height s of None \<Rightarrow> [] | Some h \<Rightarrow> [''\"height\":'' @ digits (unat h)])
                    @ (if PointStruct.ID s = [] then [] else [''\"id\":'' @ quote (PointStruct.ID s)])
                    @ (if Slot s = 0 then [] else [''\"slot\":'' @ digits (unat (Slot s))]))
               @ ''}''))"

text \<open>\<open>json.Marshal\<close> of a slice of points: the array of what \<open>MarshalJSON\<close> returns for
  each, or the first error.\<close>

fun json_Marshal_Points :: "Point list \<Rightarrow> error + bytes list" where
  "json_Marshal_Points [] = Inr []"
| "json_Marshal_Points (p # pp) =
     (case Point_MarshalJSON json_Marshal_string json_Marshal_PointStruct p of
        Inl err \<Rightarrow> Inl err
      | Inr x \<Rightarrow> (case json_Marshal_Points pp of Inl err \<Rightarrow> Inl err | Inr xs \<Rightarrow> Inr (x # xs)))"

section \<open>The first request\<close>

text \<open>
  Modelled from the spec: \<open>getInit\<close>, whose file is not among the sources; only its test
  is. The points of the request are the Store's when it yields any, else the caller's,
  else the origin; the request is the \<open>findIntersection\<close> envelope of the spec's literal,
  with the id \<open>{"step":"INIT"}\<close> and the points in order. A Store that fails makes
  \<open>getInit\<close> fail.
\<close>

definition getInit :: "error + Point list \<Rightarrow> Point list \<Rightarrow> error + bytes" where
  "getInit loaded pp =
     (case loaded of
        Inl err \<Rightarrow> Inl err
      | Inr stored \<Rightarrow>
          (case json_Marshal_Points
                  (if stored \<noteq> [] then stored else if pp \<noteq> [] then pp else [Origin]) of
             Inl err \<Rightarrow> Inl err
           | Inr points \<Rightarrow>
               Inr (''{\"id\":{\"step\":\"INIT\"},\"jsonrpc\":\"2.0\",\"method\":\"findIntersection\",\"params\":{\"points\":[''
                    @ join '','' points @ '']}}'')))"

section \<open>The ordering on points\<close>

lemma Less_points_irrefl:
  "well_formed p \<Longrightarrow> Less_points p p = Some False"
  by (auto simp: Less_points_def well_formed_def)

lemma Less_points_asym:
  "Less_points p q = Some True \<Longrightarrow> Less_points q p = Some False"
  by (auto simp: Less_points_def split: if_splits option.splits)

lemma Less_points_trans:
  "Less_points p q = Some True \<Longrightarrow> Less_points q r = Some True \<Longrightarrow> Less_points p r = Some True"
  by (auto simp: Less_points_def split: if_splits option.splits)

lemma Less_points_tied:
  "well_formed p \<Longrightarrow> well_formed q \<Longrightarrow>
   (Less_points p q = Some False \<and> Less_points q p = Some False) = (sort_key p = sort_key q)"
  by (auto simp: Less_points_def well_formed_def sort_key_def split: if_splits option.splits)

text \<open>
  C6, as the code has it. For any slice and any indices \<open>i\<close>, \<open>j\<close>, \<open>k\<close> in range:
  two struct points compare by slot, the greater slot first; a struct point is less than
  any other point and no other point is less than a struct point; two other points compare
  by their strings bytewise, the greater string first. The relation is a strict weak
  order: irreflexive, asymmetric and transitive, and two points are tied (neither less
  than the other) exactly when their keys are equal, whatever their ids and heights.
  A struct-typed point without a struct makes the struct-to-struct comparison panic.
\<close>

theorem Points_Less_strict_weak_order:
  assumes "0 \<le> i" "i < int (length pp)" "0 \<le> j" "j < int (length pp)"
    "0 \<le> k" "k < int (length pp)"
  shows
    "(pointType (pp ! nat i) = PointTypeStruct \<and> pointType (pp ! nat j) = PointTypeStruct \<longrightarrow>
        Less pp i j =
          (case (pointStruct (pp ! nat i), pointStruct (pp ! nat j)) of
             (Some a, Some b) \<Rightarrow> Some (Slot b < Slot a) | _ \<Rightarrow> None))
     \<and> (pointType (pp ! nat i) = PointTypeStruct \<and> pointType (pp ! nat j) \<noteq> PointTypeStruct \<longrightarrow>
        Less pp i j = Some True)
     \<and> (pointType (pp ! nat i) \<noteq> PointTypeStruct \<and> pointType (pp ! nat j) = PointTypeStruct \<longrightarrow>
        Less pp i j = Some False)
     \<and> (pointType (pp ! nat i) \<noteq> PointTypeStruct \<and> pointType (pp ! nat j) \<noteq> PointTypeStruct \<longrightarrow>
        Less pp i j = Some (pointString (pp ! nat j) < pointString (pp ! nat i)))
     \<and> (well_formed (pp ! nat i) \<longrightarrow> Less pp i i = Some False)
     \<and> (Less pp i j = Some True \<longrightarrow> Less pp j i = Some False)
     \<and> (Less pp i j = Some True \<and> Less pp j k = Some True \<longrightarrow> Less pp i k = Some True)
     \<and> (well_formed (pp ! nat i) \<and> well_formed (pp ! nat j) \<longrightarrow>
        (Less pp i j = Some False \<and> Less pp j i = Some False)
          = (sort_key (pp ! nat i) = sort_key (pp ! nat j)))"
proof -
  have L: "Less pp i j = Less_points (pp ! nat i) (pp ! nat j)"
    "Less pp j i = Less_points (pp ! nat j) (pp ! nat i)"
    "Less pp i i = Less_points (pp ! nat i) (pp ! nat i)"
    "Less pp j k = Less_points (pp ! nat j) (pp ! nat k)"
    "Less pp i k = Less_points (pp ! nat i) (pp ! nat k)"
    using assms by (simp_all add: Less_def)
  have "pointType (pp ! nat i) = PointTypeStruct \<and> pointType (pp ! nat j) = PointTypeStruct \<longrightarrow>
        Less pp i j =
          (case (pointStruct (pp ! nat i), pointStruct (pp ! nat j)) of
             (Some a, Some b) \<Rightarrow> Some (Slot b < Slot a) | _ \<Rightarrow> None)"
    unfolding L by (simp add: Less_points_def)
  moreover have "pointType (pp ! nat i) = PointTypeStruct \<and> pointType (pp ! nat j) \<noteq> PointTypeStruct \<longrightarrow>
        Less pp i j = Some True"
    unfolding L by (simp add: Less_points_def)
  moreover have "pointType (pp ! nat i) \<noteq> PointTypeStruct \<and> pointType (pp ! nat j) = PointTypeStruct \<longrightarrow>
        Less pp i j = Some False"
    unfolding L by (simp add: Less_points_def)
  moreover have "pointType (pp ! nat i) \<noteq> PointTypeStruct \<and> pointType (pp ! nat j) \<noteq> PointTypeStruct \<longrightarrow>
        Less pp i j = Some (pointString (pp ! nat j) < pointString (pp ! nat i))"
    unfolding L by (simp add: Less_points_def)
  moreover have "well_formed (pp ! nat i) \<longrightarrow> Less pp i i = Some False"
    unfolding L using Less_points_irrefl by blast
  moreover have "Less pp i j = Some True \<longrightarrow> Less pp j i = Some False"
    unfolding L using Less_points_asym by blast
  moreover have "Less pp i j = Some True \<and> Less pp j k = Some True \<longrightarrow> Less pp i k = Some True"
    unfolding L using Less_points_trans by blast
  moreover have "well_formed (pp ! nat i) \<and> well_formed (pp ! nat j) \<longrightarrow>
        (Less pp i j = Some False \<and> Less pp j i = Some False)
          = (sort_key (pp ! nat i) = sort_key (pp ! nat j))"
    unfolding L using Less_points_tied by blast
  ultimately show ?thesis by blast
qed

text \<open>
  The theorem at the slice \<open>[slot 3, slot 9, "a", "b"]\<close>: slot 9 is ahead of slot 3, a
  struct point is ahead of a string, and \<open>"b"\<close> is ahead of \<open>"a"\<close>.
\<close>

theorem Points_Less_strict_weak_order_witness:
  "Less sample_points 1 0 = Some True
   \<and> Less sample_points 0 1 = Some False
   \<and> Less sample_points 0 2 = Some True
   \<and> Less sample_points 2 0 = Some False
   \<and> Less sample_points 3 2 = Some True
   \<and> Less sample_points 1 2 = Some True"
proof -
  have len: "int (length sample_points) = 4" by (simp add: sample_points_def)
  note d = sample_points_def PointStruct_Point_def PointString_Point_def PointTypeStruct_def
    PointTypeString_def
  have a: "Less sample_points 1 0 = Some True"
    using Points_Less_strict_weak_order [of 1 sample_points 0 0] by (simp add: len d)
  have b: "Less sample_points 0 1 = Some False"
    using Points_Less_strict_weak_order [of 0 sample_points 1 0] by (simp add: len d)
  have c: "Less sample_points 0 2 = Some True"
    using Points_Less_strict_weak_order [of 0 sample_points 2 0] by (simp add: len d)
  have d': "Less sample_points 2 0 = Some False"
    using Points_Less_strict_weak_order [of 2 sample_points 0 0] by (simp add: len d)
  have e: "Less sample_points 3 2 = Some True"
    using Points_Less_strict_weak_order [of 3 sample_points 2 0] by (simp add: len d)
  have f: "Less sample_points 1 2 = Some True"
    using Points_Less_strict_weak_order [of 1 sample_points 0 2] a c by (simp add: len)
  show ?thesis using a b c d' e f by simp
qed

text \<open>
  The order is not total: two different struct points in the same slot are tied, neither
  is less than the other.
\<close>

theorem Points_Less_not_total:
  "PointStruct_Point \<lparr>Height = None, ID = ''aa'', Slot = 10\<rparr>
     \<noteq> PointStruct_Point \<lparr>Height = None, ID = ''bb'', Slot = 10\<rparr>
   \<and> Less [PointStruct_Point \<lparr>Height = None, ID = ''aa'', Slot = 10\<rparr>,
            PointStruct_Point \<lparr>Height = None, ID = ''bb'', Slot = 10\<rparr>] 0 1 = Some False
   \<and> Less [PointStruct_Point \<lparr>Height = None, ID = ''aa'', Slot = 10\<rparr>,
            PointStruct_Point \<lparr>Height = None, ID = ''bb'', Slot = 10\<rparr>] 1 0 = Some False"
  by (simp add: Less_def Less_points_def PointStruct_Point_def PointTypeStruct_def)

text \<open>Outside the slice \<open>Less\<close> panics.\<close>

lemma Less_out_of_range:
  "i < 0 \<or> int (length pp) \<le> i \<or> j < 0 \<or> int (length pp) \<le> j \<Longrightarrow> Less pp i j = None"
  by (auto simp: Less_def)

section \<open>Point.UnmarshalJSON and the empty input\<close>

text \<open>
  C10. On the empty byte slice \<open>Point.UnmarshalJSON\<close> panics, and on no other input:
  for a non-empty input whose first byte is a double quote it decodes a string and sets a
  string point, or returns the wrapped error and leaves the receiver as it was; for any
  other non-empty input it does the same with a struct.
\<close>

theorem Point_UnmarshalJSON_panics_iff_empty:
  "Point_UnmarshalJSON us ut p [] = Panic
   \<and> (\<forall>c cs.
        Point_UnmarshalJSON us ut p (c # cs) \<noteq> Panic
        \<and> (c = CHR 0x22 \<longrightarrow>
             (\<forall>s. us (c # cs) = Inr s \<longrightarrow>
                Point_UnmarshalJSON us ut p (c # cs) = Return (PointString_Point s) None)
             \<and> (\<forall>e. us (c # cs) = Inl e \<longrightarrow>
                Point_UnmarshalJSON us ut p (c # cs)
                  = Return p (Some (Errorf ''failed to unmarshal Point, %v: %w'' [c # cs] (Some e)))))
        \<and> (c \<noteq> CHR 0x22 \<longrightarrow>
             (\<forall>ps. ut (c # cs) = Inr ps \<longrightarrow>
                Point_UnmarshalJSON us ut p (c # cs) = Return (PointStruct_Point ps) None)
             \<and> (\<forall>e. ut (c # cs) = Inl e \<longrightarrow>
                Point_UnmarshalJSON us ut p (c # cs)
                  = Return p (Some (Errorf ''failed to unmarshal Point, %v: %w'' [c # cs] (Some e))))))"
  by (auto simp: Point_UnmarshalJSON_def PointString_Point_def PointStruct_Point_def
      split: sum.splits)

theorem Point_UnmarshalJSON_panics_iff_empty_witness:
  "Point_UnmarshalJSON only_origin no_struct Point_zero [] = Panic
   \<and> Point_UnmarshalJSON only_origin no_struct Point_zero
        [CHR 0x22, CHR ''o'', CHR ''r'', CHR ''i'', CHR ''g'', CHR ''i'', CHR ''n'', CHR 0x22]
       = Return Origin None
   \<and> Point_UnmarshalJSON only_origin no_struct Point_zero ''7''
       = Return Point_zero (Some (Errorf ''failed to unmarshal Point, %v: %w'' [''7'']
           (Some (Library ''cannot unmarshal into Go value of type chainsync.PointStruct''))))"
  using Point_UnmarshalJSON_panics_iff_empty [of only_origin no_struct Point_zero]
  by (simp add: only_origin_def no_struct_def Origin_def)

section \<open>Responses with an unknown method\<close>

text \<open>
  C5. When the envelope decodes, has no error field, and its method is none of
  \<open>findIntersection\<close>, \<open>FindIntersect\<close>, \<open>nextBlock\<close>, \<open>RequestNext\<close>, decoding
  returns the unknown-method error: the receiver has the envelope's \<open>jsonrpc\<close> and
  \<open>id\<close> and nothing else of it, in particular no result.
\<close>

theorem ResponsePraos_unknown_method:
  assumes "um b = Inr m"
    and "Envelope.Error m = None"
    and "Envelope.Method m \<noteq> FindIntersectionMethod"
    and "Envelope.Method m \<noteq> FindIntersectMethod"
    and "Envelope.Method m \<noteq> NextBlockMethod"
    and "Envelope.Method m \<noteq> RequestNextMethod"
  shows "ResponsePraos_UnmarshalJSON um ue uf un r b =
     Return (r\<lparr>ResponsePraos.JsonRpc := Envelope.JsonRpc m, ResponsePraos.ID := Envelope.ID m\<rparr>)
       (Some (Errorf unknown_method_format [ResponsePraos.Method r] None))"
  using assms by (simp add: ResponsePraos_UnmarshalJSON_def Let_def)

theorem ResponsePraos_unknown_method_witness:
  "ResponsePraos_UnmarshalJSON foo_envelope unreached unreached unreached ResponsePraos_zero
     foo_payload =
     Return (ResponsePraos_zero\<lparr>ResponsePraos.JsonRpc := ''2.0''\<rparr>)
       (Some (Errorf unknown_method_format [[]] None))"
  using ResponsePraos_unknown_method [of foo_envelope foo_payload
      "\<lparr>Envelope.JsonRpc = ''2.0'', Method = ''foo'', ID = None, Result = None, Error = None\<rparr>"
      unreached unreached unreached ResponsePraos_zero]
  by (simp add: foo_envelope_def FindIntersectionMethod_def FindIntersectMethod_def
      NextBlockMethod_def RequestNextMethod_def ResponsePraos_zero_def)

section \<open>The shim's detection of the schema\<close>

text \<open>Each decoder as a chain of its tests, on the two decodings of the payload.\<close>

lemma find_json_cases:
  "CompatibleResultFindIntersection_UnmarshalJSON u6 u5 conv c data =
     (if snd (u6 data) = None
          \<and> (Intersection (fst (u6 data)) \<noteq> None
               \<or> ResultFindIntersectionPraos.Error (fst (u6 data)) \<noteq> None)
      then Return (fst (u6 data)) None
      else if snd (u5 data) = None
          \<and> (IntersectionFound (fst (u5 data)) \<noteq> None \<or> IntersectionNotFound (fst (u5 data)) \<noteq> None)
      then Return (conv (fst (u5 data))) None
      else Return c
        (Some (Errorf ''unable to parse as either v5 or v6 FindIntersection: %w'' [] (snd (u5 data)))))"
  unfolding CompatibleResultFindIntersection_UnmarshalJSON_def
  by (cases "u6 data"; cases "u5 data") simp

lemma next_json_cases:
  "CompatibleResultNextBlock_UnmarshalJSON n6 n5 nconv nc data =
     (if snd (n6 data) = None \<and> Direction (fst (n6 data)) \<noteq> []
      then Return (fst (n6 data)) None
      else if snd (n5 data) = None
          \<and> (RollBackward (fst (n5 data)) \<noteq> None \<or> RollForward (fst (n5 data)) \<noteq> None)
      then Return (nconv (fst (n5 data))) None
      else Return nc
        (Some (Errorf ''unable to parse as either v5 of v6 NextBlock: %w'' [] (snd (n5 data)))))"
  unfolding CompatibleResultNextBlock_UnmarshalJSON_def
  by (cases "n6 data"; cases "n5 data") simp






section \<open>The error of a payload of neither schema\<close>

text \<open>
  The claim that the error carries both decoding errors fails: on \<open>42\<close> both attempts
  fail, and the error returned wraps the legacy attempt's error and does not carry the
  current attempt's.
\<close>

theorem shim_error_drops_current_error:
  "CompatibleResultFindIntersection_UnmarshalJSON sample_unmarshal6 sample_unmarshal5 sample_convert
     ResultFindIntersectionPraos_zero ''42''
     = Return ResultFindIntersectionPraos_zero
         (Some (Errorf ''unable to parse as either v5 or v6 FindIntersection: %w'' [] (Some legacy_error)))
   \<and> snd (sample_unmarshal6 ''42'') = Some current_error
   \<and> \<not> carries (Errorf ''unable to parse as either v5 or v6 FindIntersection: %w'' []
          (Some legacy_error)) current_error"
  by (simp add: find_json_cases sample_unmarshal6_def
      sample_unmarshal5_def error_payload_def ResultFindIntersectionPraos_zero_def
      legacy_error_def current_error_def)

text \<open>
  C4, as the code has it. When a JSON payload is accepted as neither schema, the decoder
  leaves the receiver as it was and returns an error that wraps the legacy attempt's
  error alone, nil when that attempt decoded without error and found no legacy field; it
  carries the current attempt's error only when that is the same error.
\<close>

theorem shim_error_wraps_legacy_error:
  assumes "\<not> (snd (u6 data) = None
          \<and> (Intersection (fst (u6 data)) \<noteq> None
               \<or> ResultFindIntersectionPraos.Error (fst (u6 data)) \<noteq> None))"
    and "\<not> (snd (u5 data) = None
          \<and> (IntersectionFound (fst (u5 data)) \<noteq> None \<or> IntersectionNotFound (fst (u5 data)) \<noteq> None))"
    and "\<not> (snd (n6 data) = None \<and> Direction (fst (n6 data)) \<noteq> [])"
    and "\<not> (snd (n5 data) = None
          \<and> (RollBackward (fst (n5 data)) \<noteq> None \<or> RollForward (fst (n5 data)) \<noteq> None))"
  shows "CompatibleResultFindIntersection_UnmarshalJSON u6 u5 conv c data =
       Return c (Some (Errorf ''unable to parse as either v5 or v6 FindIntersection: %w'' []
         (snd (u5 data))))
     \<and> CompatibleResultNextBlock_UnmarshalJSON n6 n5 nconv nc data =
       Return nc (Some (Errorf ''unable to parse as either v5 of v6 NextBlock: %w'' []
         (snd (n5 data))))
     \<and> (\<forall>e. carries (Errorf ''unable to parse as either v5 or v6 FindIntersection: %w'' []
              (snd (u5 data))) e
          = (e = Errorf ''unable to parse as either v5 or v6 FindIntersection: %w'' [] (snd (u5 data))
             \<or> (\<exists>w. snd (u5 data) = Some w \<and> carries w e)))"
proof -
  have a: "CompatibleResultFindIntersection_UnmarshalJSON u6 u5 conv c data =
       Return c (Some (Errorf ''unable to parse as either v5 or v6 FindIntersection: %w'' []
         (snd (u5 data))))"
    using assms(1,2) by (simp only: find_json_cases if_False)
  have b: "CompatibleResultNextBlock_UnmarshalJSON n6 n5 nconv nc data =
       Return nc (Some (Errorf ''unable to parse as either v5 of v6 NextBlock: %w'' []
         (snd (n5 data))))"
    using assms(3,4) by (simp only: next_json_cases if_False)
  have c: "\<forall>e. carries (Errorf ''unable to parse as either v5 or v6 FindIntersection: %w'' []
              (snd (u5 data))) e
          = (e = Errorf ''unable to parse as either v5 or v6 FindIntersection: %w'' [] (snd (u5 data))
             \<or> (\<exists>w. snd (u5 data) = Some w \<and> carries w e))"
    by (cases "snd (u5 data)") auto
  show ?thesis using a b c by blast
qed

theorem shim_error_wraps_legacy_error_witness:
  "CompatibleResultFindIntersection_UnmarshalJSON sample_unmarshal6 sample_unmarshal5 sample_convert
     ResultFindIntersectionPraos_zero ''42''
     = Return ResultFindIntersectionPraos_zero
         (Some (Errorf ''unable to parse as either v5 or v6 FindIntersection: %w'' [] (Some legacy_error)))
   \<and> CompatibleResultNextBlock_UnmarshalJSON sample_next6 sample_next5 sample_next_convert
     ResultNextBlockPraos_zero ''42''
     = Return ResultNextBlockPraos_zero
         (Some (Errorf ''unable to parse as either v5 of v6 NextBlock: %w'' [] (Some legacy_error)))"
  using shim_error_wraps_legacy_error [where ?u6.0 = sample_unmarshal6 and ?u5.0 = sample_unmarshal5
      and ?n6.0 = sample_next6 and ?n5.0 = sample_next5 and data = "''42''"
      and conv = sample_convert and c = ResultFindIntersectionPraos_zero
      and nconv = sample_next_convert and nc = ResultNextBlockPraos_zero]
  by (simp add: sample_unmarshal6_def sample_unmarshal5_def sample_next6_def sample_next5_def
      error_payload_def)

section \<open>The width of execution units\<close>




section \<open>Round trips of a point\<close>

text \<open>
  The round trip fails in the attribute form for the struct point whose fields are all
  omitted: its map is empty, and the decoder, which reads a map only when it has an
  entry, leaves the receiver as it was.
\<close>

theorem empty_struct_point_not_restored:
  "valid_point empty_struct_point
   \<and> Point_MarshalDynamoDBAttributeValue sample_MarshalMap empty_struct_point AttributeValue_zero
       = Return \<lparr>S = None, M = Some []\<rparr> None
   \<and> Point_UnmarshalDynamoDBAttributeValue sample_UnmarshalMap Point_zero
         (Some \<lparr>S = None, M = Some []\<rparr>) = Return Point_zero None
   \<and> Point_zero \<noteq> empty_struct_point"
  by (simp add: valid_point_def empty_struct_point_def PointStruct_Point_def PointTypeStruct_def
      PointTypeString_def Point_MarshalDynamoDBAttributeValue_def sample_MarshalMap_def
      AttributeValue_zero_def Point_UnmarshalDynamoDBAttributeValue_def map_len_def Point_zero_def)

lemma Point_json_round_trip:
  assumes "valid_point p"
    and "pointType p = PointTypeString \<Longrightarrow>
           ms (pointString p) = Inr dj \<and> dj \<noteq> [] \<and> hd dj = CHR 0x22 \<and> us dj = Inr (pointString p)"
    and "pointType p = PointTypeStruct \<Longrightarrow>
           mst (pointStruct p) = Inr dj \<and> dj \<noteq> [] \<and> hd dj \<noteq> CHR 0x22
           \<and> ut dj = Inr (the (pointStruct p))"
  shows "Point_MarshalJSON ms mst p = Inr dj \<and> Point_UnmarshalJSON us ut q dj = Return p None"
proof (cases "pointType p = PointTypeString")
  case True
  then have s: "pointStruct p = None"
    using assms(1) by (auto simp: valid_point_def PointTypeString_def PointTypeStruct_def)
  obtain c cs where d: "dj = c # cs" "c = CHR 0x22"
    using assms(2) [OF True] by (cases dj) auto
  have "Point_UnmarshalJSON us ut q dj
      = Return \<lparr>pointType = PointTypeString, pointString = pointString p, pointStruct = None\<rparr> None"
    using assms(2) [OF True] d by (simp add: Point_UnmarshalJSON_def)
  moreover have "\<lparr>pointType = PointTypeString, pointString = pointString p, pointStruct = None\<rparr> = p"
    using True s by simp
  ultimately show ?thesis using assms(2) [OF True] True by (simp add: Point_MarshalJSON_def)
next
  case False
  then have t: "pointType p = PointTypeStruct" and e: "pointString p = []"
    and n: "pointStruct p \<noteq> None"
    using assms(1) by (auto simp: valid_point_def)
  obtain c cs where d: "dj = c # cs" "c \<noteq> CHR 0x22"
    using assms(3) [OF t] by (cases dj) auto
  have "Point_UnmarshalJSON us ut q dj
      = Return \<lparr>pointType = PointTypeStruct, pointString = [],
                 pointStruct = Some (the (pointStruct p))\<rparr> None"
    using assms(3) [OF t] d by (simp add: Point_UnmarshalJSON_def)
  moreover have "\<lparr>pointType = PointTypeStruct, pointString = [],
                 pointStruct = Some (the (pointStruct p))\<rparr> = p"
    using t e n by auto
  ultimately show ?thesis using assms(3) [OF t] t False by (simp add: Point_MarshalJSON_def)
qed

lemma Point_cbor_round_trip:
  assumes "valid_point p"
    and "cm \<lparr>pointCBOR.String = pointString p, Struct = pointStruct p\<rparr> = Inr dc \<and> dc \<noteq> []
         \<and> dc \<noteq> bNil \<and> cu dc = Inr \<lparr>pointCBOR.String = pointString p, Struct = pointStruct p\<rparr>"
  shows "Point_MarshalCBOR cm p = Inr dc \<and> Point_UnmarshalCBOR cu q dc = Return p None"
proof -
  have m: "Point_MarshalCBOR cm p = Inr dc"
    using assms by (auto simp: Point_MarshalCBOR_def valid_point_def)
  have "\<lparr>pointType = (if pointStruct p \<noteq> None then PointTypeStruct else PointTypeString),
          pointString = pointString p, pointStruct = pointStruct p\<rparr> = p"
    using assms(1) by (auto simp: valid_point_def PointTypeString_def PointTypeStruct_def)
  then have "Point_UnmarshalCBOR cu q dc = Return p None"
    using assms(2) by (simp add: Point_UnmarshalCBOR_def)
  with m show ?thesis by simp
qed

lemma Point_attribute_round_trip:
  assumes "valid_point p"
    and "pointType p = PointTypeStruct \<Longrightarrow>
           mm (pointStruct p) = Inr m \<and> (m \<noteq> [] \<longrightarrow> um m = Inr (the (pointStruct p)))"
  shows "\<exists>item. Point_MarshalDynamoDBAttributeValue mm p AttributeValue_zero = Return item None
           \<and> Point_UnmarshalDynamoDBAttributeValue um q (Some item)
               = Return (if pointType p = PointTypeStruct \<and> m = [] then q else p) None"
proof (cases "pointType p = PointTypeString")
  case True
  then have s: "pointStruct p = None" and ns: "pointType p \<noteq> PointTypeStruct"
    using assms(1) by (auto simp: valid_point_def PointTypeString_def PointTypeStruct_def)
  have "\<lparr>pointType = PointTypeString, pointString = pointString p, pointStruct = None\<rparr> = p"
    using True s by simp
  then show ?thesis
    using True ns
    by (simp add: Point_MarshalDynamoDBAttributeValue_def Point_UnmarshalDynamoDBAttributeValue_def
        AttributeValue_zero_def)
next
  case False
  then have t: "pointType p = PointTypeStruct" and e: "pointString p = []"
    and n: "pointStruct p \<noteq> None"
    using assms(1) by (auto simp: valid_point_def)
  have r: "\<lparr>pointType = PointTypeStruct, pointString = [],
             pointStruct = Some (the (pointStruct p))\<rparr> = p"
    using t e n by auto
  have mar: "Point_MarshalDynamoDBAttributeValue mm p AttributeValue_zero
      = Return \<lparr>S = None, M = Some m\<rparr> None"
    using assms(2) [OF t] t False
    by (simp add: Point_MarshalDynamoDBAttributeValue_def AttributeValue_zero_def)
  have "Point_UnmarshalDynamoDBAttributeValue um q (Some \<lparr>S = None, M = Some m\<rparr>)
      = Return (if m = [] then q else p) None"
    using assms(2) [OF t] r
    by (cases m) (simp_all add: Point_UnmarshalDynamoDBAttributeValue_def map_len_def)
  with mar t show ?thesis by simp
qed

text \<open>
  C1, as the code has it. Take a valid point and a library that writes each value of the
  point and reads its own output back: a JSON string begins with a double quote and the
  JSON of a struct does not, the CBOR bytes are not empty and are not the three bytes
  \<open>nil\<close>. Then, whatever the receiver held before, decoding the encoding of the point
  gives the point again in JSON and in CBOR; in the attribute form it does so for every
  string point and for every struct point whose map has an entry, and for the struct
  point whose map is empty the receiver is left as it was.
\<close>

theorem Point_round_trip:
  assumes "valid_point p"
    and "pointType p = PointTypeString \<Longrightarrow>
           ms (pointString p) = Inr dj \<and> dj \<noteq> [] \<and> hd dj = CHR 0x22 \<and> us dj = Inr (pointString p)"
    and "pointType p = PointTypeStruct \<Longrightarrow>
           mst (pointStruct p) = Inr dj \<and> dj \<noteq> [] \<and> hd dj \<noteq> CHR 0x22
           \<and> ut dj = Inr (the (pointStruct p))"
    and "cm \<lparr>pointCBOR.String = pointString p, Struct = pointStruct p\<rparr> = Inr dc \<and> dc \<noteq> []
         \<and> dc \<noteq> bNil \<and> cu dc = Inr \<lparr>pointCBOR.String = pointString p, Struct = pointStruct p\<rparr>"
    and "pointType p = PointTypeStruct \<Longrightarrow>
           mm (pointStruct p) = Inr m \<and> (m \<noteq> [] \<longrightarrow> um m = Inr (the (pointStruct p)))"
  shows "(Point_MarshalJSON ms mst p = Inr dj \<and> Point_UnmarshalJSON us ut q dj = Return p None)
     \<and> (Point_MarshalCBOR cm p = Inr dc \<and> Point_UnmarshalCBOR cu q dc = Return p None)
     \<and> (\<exists>item. Point_MarshalDynamoDBAttributeValue mm p AttributeValue_zero = Return item None
           \<and> Point_UnmarshalDynamoDBAttributeValue um q (Some item)
               = Return (if pointType p = PointTypeStruct \<and> m = [] then q else p) None)"
proof -
  have a: "Point_MarshalJSON ms mst p = Inr dj \<and> Point_UnmarshalJSON us ut q dj = Return p None"
    using assms(1,2,3) Point_json_round_trip [of p ms dj us mst ut q] by blast
  have b: "Point_MarshalCBOR cm p = Inr dc \<and> Point_UnmarshalCBOR cu q dc = Return p None"
    using assms(1,4) Point_cbor_round_trip [of p cm dc cu q] by blast
  have c: "\<exists>item. Point_MarshalDynamoDBAttributeValue mm p AttributeValue_zero = Return item None
           \<and> Point_UnmarshalDynamoDBAttributeValue um q (Some item)
               = Return (if pointType p = PointTypeStruct \<and> m = [] then q else p) None"
    using assms(1,5) Point_attribute_round_trip [of p mm m um q] by blast
  show ?thesis using a b c by blast
qed

theorem Point_round_trip_witness:
  "(Point_MarshalJSON sample_marshal_string sample_marshal_struct (PointStruct_Point hash_struct)
      = Inr hash_json
    \<and> Point_UnmarshalJSON only_origin sample_unmarshal_struct Point_zero hash_json
      = Return (PointStruct_Point hash_struct) None)
   \<and> (Point_MarshalCBOR sample_cbor_Marshal (PointStruct_Point hash_struct) = Inr hash_cbor
    \<and> Point_UnmarshalCBOR sample_cbor_Unmarshal Point_zero hash_cbor
      = Return (PointStruct_Point hash_struct) None)
   \<and> (\<exists>item. Point_MarshalDynamoDBAttributeValue sample_MarshalMap (PointStruct_Point hash_struct)
          AttributeValue_zero = Return item None
        \<and> Point_UnmarshalDynamoDBAttributeValue sample_UnmarshalMap Point_zero (Some item)
          = Return (PointStruct_Point hash_struct) None)"
proof -
  have v: "valid_point (PointStruct_Point hash_struct)"
    by (simp add: valid_point_def PointStruct_Point_def)
  have t: "pointType (PointStruct_Point hash_struct) = PointTypeStruct"
    "pointType (PointStruct_Point hash_struct) \<noteq> PointTypeString"
    "pointString (PointStruct_Point hash_struct) = []"
    "pointStruct (PointStruct_Point hash_struct) = Some hash_struct"
    by (simp_all add: PointStruct_Point_def PointTypeStruct_def PointTypeString_def)
  have j: "sample_marshal_struct (pointStruct (PointStruct_Point hash_struct)) = Inr hash_json
      \<and> hash_json \<noteq> [] \<and> hd hash_json \<noteq> CHR 0x22
      \<and> sample_unmarshal_struct hash_json = Inr (the (pointStruct (PointStruct_Point hash_struct)))"
    by (simp add: t sample_marshal_struct_def sample_unmarshal_struct_def hash_json_def)
  have c: "sample_cbor_Marshal \<lparr>pointCBOR.String = pointString (PointStruct_Point hash_struct),
        Struct = pointStruct (PointStruct_Point hash_struct)\<rparr> = Inr hash_cbor \<and> hash_cbor \<noteq> []
      \<and> hash_cbor \<noteq> bNil
      \<and> sample_cbor_Unmarshal hash_cbor
          = Inr \<lparr>pointCBOR.String = pointString (PointStruct_Point hash_struct),
                 Struct = pointStruct (PointStruct_Point hash_struct)\<rparr>"
    by (simp add: t sample_cbor_Marshal_def sample_cbor_Unmarshal_def hash_cbor_def bNil_def)
  have m: "sample_MarshalMap (pointStruct (PointStruct_Point hash_struct))
        = Inr [(''id'', ''S''), (''slot'', ''N'')]
      \<and> ([(''id'', ''S''), (''slot'', ''N'')] \<noteq> [] \<longrightarrow>
          sample_UnmarshalMap [(''id'', ''S''), (''slot'', ''N'')]
            = Inr (the (pointStruct (PointStruct_Point hash_struct))))"
    unfolding t by (simp add: sample_MarshalMap_def sample_UnmarshalMap_def hash_struct_def)
  show ?thesis
    using Point_round_trip [of "PointStruct_Point hash_struct" sample_marshal_string hash_json
        only_origin sample_marshal_struct sample_unmarshal_struct sample_cbor_Marshal hash_cbor
        sample_cbor_Unmarshal sample_MarshalMap "[(''id'', ''S''), (''slot'', ''N'')]"
        sample_UnmarshalMap Point_zero] v t j c m
    by simp
qed

section \<open>The first request, from points and from the Store\<close>

lemma digits_456: "digits 456 = ''456''"
  by (simp add: digits.simps [of 456] digits.simps [of 45] digits.simps [of 4] digit_def)

lemma quote_hash: "quote ''hash'' = ''\"hash\"''"
  by (simp add: quote_def byte_def htmlSafe_def)

lemma json_hash_point:
  "Point_MarshalJSON json_Marshal_string json_Marshal_PointStruct (PointStruct_Point hash_struct)
     = Inr ''{\"id\":\"hash\",\"slot\":456}''"
  by (simp add: Point_MarshalJSON_def PointStruct_Point_def PointTypeStruct_def PointTypeString_def
      json_Marshal_PointStruct_def hash_struct_def join_def quote_hash digits_456)

text \<open>
  C7. From the one point of slot 456 and id \<open>hash\<close>, with an empty Store, \<open>getInit\<close>
  gives exactly the bytes of the test.
\<close>

theorem getInit_from_points:
  "getInit (Inr []) [PointStruct_Point hash_struct] =
     Inr ''{\"id\":{\"step\":\"INIT\"},\"jsonrpc\":\"2.0\",\"method\":\"findIntersection\",\"params\":{\"points\":[{\"id\":\"hash\",\"slot\":456}]}}''"
  by (simp add: getInit_def json_hash_point join_def)


end
